theory Spec2Isabelle
  imports Complex_Main
begin

text \<open>
  A model of the backend of the AI Response Quality Analyzer: the quality metrics service,
  the LLM service with its model fallback and mock generator, the parameter sampler and
  the generation route with its aggregate, and the aggregate of the export route.
\<close>

section \<open>JavaScript numbers\<close>

text \<open>
  A JavaScript \<open>number\<close> is modelled as a real number or \<open>NaN\<close>. Arithmetic is exact:
  the rounding error of IEEE doubles is not modelled. Every division of the scorers is
  guarded by a non-zero divisor in the source; the one unguarded division is that of the
  route's totals by \<open>responseCount\<close>, where a zero count goes with zero totals, and
  \<open>0 / 0\<close> is \<open>NaN\<close> in JavaScript. Infinities therefore do not arise and are left out.
\<close>

datatype number = Num real | NaN

fun num_add :: "number \<Rightarrow> number \<Rightarrow> number" where
  "num_add (Num a) (Num b) = Num (a + b)"
| "num_add _ _ = NaN"

fun num_mul :: "number \<Rightarrow> number \<Rightarrow> number" where
  "num_mul (Num a) (Num b) = Num (a * b)"
| "num_mul _ _ = NaN"

fun num_div :: "number \<Rightarrow> number \<Rightarrow> number" where
  "num_div (Num a) (Num b) = (if b = 0 then NaN else Num (a / b))"
| "num_div _ _ = NaN"

text \<open>\<open>Math.round\<close> rounds to the nearest integer, a half towards plus infinity.\<close>

definition Math_round :: "real \<Rightarrow> real" where
  "Math_round x = of_int \<lfloor>x + 1 / 2\<rfloor>"

text \<open>The idiom \<open>Math.round(x * 100) / 100\<close> of the source.\<close>

definition round2 :: "real \<Rightarrow> real" where
  "round2 x = Math_round (x * 100) / 100"

fun num_round2 :: "number \<Rightarrow> number" where
  "num_round2 (Num x) = Num (round2 x)"
| "num_round2 NaN = NaN"

section \<open>JavaScript strings\<close>

text \<open>
  Strings are lists of 8-bit characters. \<open>toLowerCase\<close> folds the letters A-Z, and the
  class \<open>\s\<close> is the ASCII white space; text outside ASCII is outside the model.
\<close>

definition lower_char :: "char \<Rightarrow> char" where
  "lower_char c =
     (case map_of (zip ''ABCDEFGHIJKLMNOPQRSTUVWXYZ'' ''abcdefghijklmnopqrstuvwxyz'') c of
        Some d \<Rightarrow> d
      | None \<Rightarrow> c)"

definition toLowerCase :: "string \<Rightarrow> string" where
  "toLowerCase s = map lower_char s"

definition is_space :: "char \<Rightarrow> bool" where
  "is_space c = (c \<in> set [CHR '' '', CHR 0x09, CHR 0x0A, CHR 0x0B, CHR 0x0C, CHR 0x0D])"

definition is_stop :: "char \<Rightarrow> bool" where
  "is_stop c = (c \<in> set ''.!?'')"

text \<open>
  \<open>s.split(/[class]+/)\<close>: the pieces between the maximal runs of separator characters.
  A run at the start or at the end leaves an empty piece there, and the empty string
  splits into one empty piece, as in JavaScript.
\<close>

function split_acc :: "(char \<Rightarrow> bool) \<Rightarrow> string \<Rightarrow> string \<Rightarrow> string list" where
  "split_acc sep cur [] = [cur]"
| "split_acc sep cur (c # cs) =
     (if sep c then cur # split_acc sep [] (dropWhile sep cs)
      else split_acc sep (cur @ [c]) cs)"
  by pat_completeness auto
termination
  by (relation "measure (\<lambda>(sep, cur, s). length s)")
     (auto simp: length_dropWhile_le less_Suc_eq_le)

definition split_on :: "(char \<Rightarrow> bool) \<Rightarrow> string \<Rightarrow> string list" where
  "split_on sep s = split_acc sep [] s"

definition trim :: "string \<Rightarrow> string" where
  "trim s = rev (dropWhile is_space (rev (dropWhile is_space s)))"

text \<open>\<open>s.includes(t)\<close>: \<open>t\<close> occurs in \<open>s\<close> as a contiguous substring.\<close>

fun str_includes :: "string \<Rightarrow> string \<Rightarrow> bool" where
  "str_includes [] t = (t = [])"
| "str_includes (c # cs) t = (take (length t) (c # cs) = t \<or> str_includes cs t)"

text \<open>Template literals print a count in decimal, and \<open>x.toFixed(3)\<close> prints \<open>x \<ge> 0\<close>
  with three decimals, the nearest such value and the larger one of two.\<close>

definition digit_char :: "nat \<Rightarrow> char" where
  "digit_char d = ''0123456789'' ! (d mod 10)"

function show_nat :: "nat \<Rightarrow> string" where
  "show_nat n = (if n < 10 then [digit_char n] else show_nat (n div 10) @ [digit_char n])"
  by pat_completeness auto
termination
  by (relation "measure id") auto

definition toFixed3 :: "real \<Rightarrow> string" where
  "toFixed3 x =
     (let n = nat \<lfloor>x * 1000 + 1 / 2\<rfloor>
      in show_nat (n div 1000) @ ''.'' @
         [digit_char (n div 100), digit_char (n div 10), digit_char n])"

section \<open>Types of the application\<close>

record GenerationParameters =
  temperature :: real
  top_p :: real
  max_tokens :: real
  model :: "string option"

record Bounds =
  min_bound :: real
  max_bound :: real
  step :: real

record ParameterRange =
  range_temperature :: Bounds
  range_top_p :: Bounds
  range_max_tokens :: Bounds

record QualityMetrics =
  coherence :: number
  completeness :: number
  readability :: number
  relevance :: number
  overallScore :: number

record MetricDetails =
  score :: number
  explanation :: string
  calculation :: string
  factors :: "(string \<times> number) list"

section \<open>QualityMetricsService\<close>

text \<open>
  A \<open>Set\<close> of words is the list of its distinct elements; only its size and membership
  are read by the scorers.
\<close>

definition calculateCoherence :: "string \<Rightarrow> MetricDetails" where
  "calculateCoherence content =
     (let words = filter (\<lambda>word. length word > 0) (split_on is_space (toLowerCase content));
          uniqueWords = remdups words
      in if length words = 0 then
           \<lparr>score = Num 0,
            explanation = ''Coherence measures vocabulary diversity. No words found in content.'',
            calculation = ''No words to analyze'',
            factors = [(''uniqueWords'', Num 0), (''totalWords'', Num 0),
                       (''uniqueRatio'', Num 0)]\<rparr>
         else
           let uniqueRatio = real (length uniqueWords) / real (length words);
               score = min 1 (uniqueRatio * 1.2)
           in \<lparr>score = Num (round2 score),
               explanation =
                 ''Coherence measures vocabulary diversity. Score based on unique word ratio (''
                 @ show_nat (length uniqueWords) @ ''/'' @ show_nat (length words) @ '' = ''
                 @ toFixed3 uniqueRatio @ '')'',
               calculation = ''unique_words / total_words * 1.2, capped at 1.0'',
               factors = [(''uniqueWords'', Num (real (length uniqueWords))),
                          (''totalWords'', Num (real (length words))),
                          (''uniqueRatio'', Num uniqueRatio)]\<rparr>)"

definition questionWords :: "string list" where
  "questionWords = [''what'', ''how'', ''why'', ''when'', ''where'', ''who'', ''which'',
                    ''explain'', ''describe'', ''tell'']"

definition answerIndicators :: "string list" where
  "answerIndicators = [''yes'', ''no'', ''because'', ''therefore'', ''however'',
                       ''specifically'', ''for example'']"

definition bool_num :: "bool \<Rightarrow> number" where
  "bool_num b = Num (if b then 1 else 0)"

definition calculateCompleteness :: "string \<Rightarrow> string \<Rightarrow> MetricDetails" where
  "calculateCompleteness content prompt =
     (let promptWords = filter (\<lambda>word. length word > 2) (split_on is_space (toLowerCase prompt));
          contentWords = filter (\<lambda>word. length word > 2) (split_on is_space (toLowerCase content));
          hasQuestion = list_ex (\<lambda>q. str_includes (toLowerCase prompt) q) questionWords;
          hasDirectAnswer = list_ex (\<lambda>a. str_includes (toLowerCase content) a) answerIndicators;
          promptSet = remdups promptWords;
          contentSet = remdups contentWords;
          overlap = length (filter (\<lambda>word. word \<in> set contentSet) promptSet);
          overlapRatio = (if length promptWords > 0
                          then real overlap / real (length promptWords) else 0);
          score0 = min 1 (overlapRatio * 1.5);
          score1 = (if hasQuestion \<and> hasDirectAnswer then min 1 (score0 + 0.2) else score0);
          score2 = (if length contentWords < 10 then score1 * 0.7 else score1)
      in \<lparr>score = Num (round2 score2),
          explanation = ''Completeness measures how well the response addresses the prompt. Based on keyword overlap and answer patterns.'',
          calculation = ''keyword_overlap_ratio * 1.5 + direct_answer_bonus, capped at 1.0'',
          factors = [(''keywordOverlap'', Num (real overlap)),
                     (''totalPromptWords'', Num (real (length promptWords))),
                     (''overlapRatio'', Num overlapRatio),
                     (''hasQuestion'', bool_num hasQuestion),
                     (''hasDirectAnswer'', bool_num hasDirectAnswer),
                     (''responseLength'', Num (real (length contentWords)))]\<rparr>)"

definition calculateReadability :: "string \<Rightarrow> MetricDetails" where
  "calculateReadability content =
     (let sentences = filter (\<lambda>s. length (trim s) > 0) (split_on is_stop content)
      in if length sentences = 0 then
           \<lparr>score = Num 0,
            explanation = ''No complete sentences found'',
            calculation = ''No sentences to analyze'',
            factors = [(''sentenceCount'', Num 0), (''averageLength'', Num 0)]\<rparr>
         else
           let sentenceLengths = map (\<lambda>s. length (split_on is_space (trim s))) sentences;
               averageLength = real (foldl (\<lambda>a b. a + b) 0 sentenceLengths)
                               / real (length sentenceLengths);
               optimalLength = 17.5;
               lengthScore = 1 - \<bar>averageLength - optimalLength\<bar> / optimalLength;
               variance = foldl (\<lambda>acc len. acc + (real len - averageLength)\<^sup>2) 0 sentenceLengths
                          / real (length sentenceLengths);
               varietyScore = min 1 (variance / 50);
               score = lengthScore * 0.7 + varietyScore * 0.3
           in \<lparr>score = Num (round2 score),
               explanation = ''Readability measures sentence structure quality. Based on optimal sentence length (15-20 words) and variety.'',
               calculation = ''(length_score * 0.7 + variety_score * 0.3)'',
               factors = [(''sentenceCount'', Num (real (length sentences))),
                          (''averageLength'', Num (round2 averageLength)),
                          (''lengthScore'', Num (round2 lengthScore)),
                          (''varietyScore'', Num (round2 varietyScore)),
                          (''variance'', Num (round2 variance))]\<rparr>)"

definition stopWords :: "string list" where
  "stopWords = [''the'', ''and'', ''or'', ''but'', ''in'', ''on'', ''at'', ''to'', ''for'', ''of'',
                ''with'', ''by'', ''is'', ''are'', ''was'', ''were'', ''be'', ''been'', ''have'',
                ''has'', ''had'', ''do'', ''does'', ''did'', ''will'', ''would'', ''could'',
                ''should'', ''may'', ''might'', ''can'', ''this'', ''that'', ''these'', ''those'']"

definition calculateRelevance :: "string \<Rightarrow> string \<Rightarrow> MetricDetails" where
  "calculateRelevance content prompt =
     (let promptWords = filter (\<lambda>word. length word > 2) (split_on is_space (toLowerCase prompt));
          contentWords = filter (\<lambda>word. length word > 2) (split_on is_space (toLowerCase content));
          filteredPromptWords = filter (\<lambda>word. word \<notin> set stopWords) promptWords;
          filteredContentWords = filter (\<lambda>word. word \<notin> set stopWords) contentWords
      in if length filteredPromptWords = 0 then
           \<lparr>score = Num 0.5,
            explanation = ''Prompt contains only stop words, using neutral relevance score'',
            calculation = ''Neutral score for stop-word-only prompt'',
            factors = [(''promptWords'', Num (real (length promptWords))),
                       (''contentWords'', Num (real (length contentWords)))]\<rparr>
         else
           let promptSet = remdups filteredPromptWords;
               contentSet = remdups filteredContentWords;
               overlap = filter (\<lambda>word. word \<in> set contentSet) promptSet;
               overlapRatio = real (length overlap) / real (length filteredPromptWords);
               topicConsistency = min 1 (overlapRatio * 1.3);
               score = (if overlapRatio < 0.1 then topicConsistency * 0.5 else topicConsistency)
           in \<lparr>score = Num (round2 score),
               explanation = ''Relevance measures how well the response stays on topic. Based on meaningful keyword overlap.'',
               calculation = ''meaningful_keyword_overlap * 1.3, with off-topic penalty'',
               factors = [(''promptWords'', Num (real (length filteredPromptWords))),
                          (''contentWords'', Num (real (length filteredContentWords))),
                          (''overlap'', Num (real (length overlap))),
                          (''overlapRatio'', Num (round2 overlapRatio)),
                          (''topicConsistency'', Num (round2 topicConsistency))]\<rparr>)"

record Weights =
  w_coherence :: real
  w_completeness :: real
  w_readability :: real
  w_relevance :: real

definition weights :: Weights where
  "weights = \<lparr>w_coherence = 0.25, w_completeness = 0.30, w_readability = 0.20,
              w_relevance = 0.25\<rparr>"

definition calculateOverallScore :: "QualityMetrics \<Rightarrow> number" where
  "calculateOverallScore metrics =
     (let weightedSum =
            num_add (num_add (num_add
              (num_mul (coherence metrics) (Num (w_coherence weights)))
              (num_mul (completeness metrics) (Num (w_completeness weights))))
              (num_mul (readability metrics) (Num (w_readability weights))))
              (num_mul (relevance metrics) (Num (w_relevance weights)))
      in num_round2 weightedSum)"

record AllMetrics =
  metrics :: QualityMetrics
  details :: "(string \<times> MetricDetails) list"

definition calculateAllMetrics :: "string \<Rightarrow> string \<Rightarrow> AllMetrics" where
  "calculateAllMetrics content prompt =
     (let coherence_d = calculateCoherence content;
          completeness_d = calculateCompleteness content prompt;
          readability_d = calculateReadability content;
          relevance_d = calculateRelevance content prompt;
          metrics0 = \<lparr>coherence = score coherence_d,
                      completeness = score completeness_d,
                      readability = score readability_d,
                      relevance = score relevance_d,
                      overallScore = Num 0\<rparr>;
          metrics1 = metrics0\<lparr>overallScore := calculateOverallScore metrics0\<rparr>
      in \<lparr>metrics = metrics1,
          details = [(''coherence'', coherence_d), (''completeness'', completeness_d),
                     (''readability'', readability_d), (''relevance'', relevance_d)]\<rparr>)"

section \<open>The runtime: random source, clock, provider, timers and database\<close>

text \<open>
  What the code reads from and writes to its environment is a state that every effectful
  function takes and returns: the successive results of \<open>Math.random()\<close> and of
  \<open>Date.now()\<close>, the answers of the remote provider (by call number and request) with
  the log of the calls made, the delays waited, and the rows written to the database.
  Console output is not modelled, and database calls succeed.
\<close>

datatype provider_outcome = Text string | Failure "int option"

record ProviderRequest =
  req_model :: string
  req_temperature :: real
  req_topP :: real
  req_prompt :: string

record ExperimentRow =
  exp_prompt :: string
  exp_range :: ParameterRange
  totalRuns :: int

record ResponseRow =
  row_experiment :: nat
  row_parameters :: GenerationParameters
  row_content :: string
  row_metrics :: QualityMetrics
  row_model :: string
  row_tokensUsed :: int
  row_generationTime :: int

record MetricRow =
  row_response :: nat
  metricType :: string
  row_score :: number

record world =
  random_src :: "nat \<Rightarrow> real"
  random_pos :: nat
  clock_src :: "nat \<Rightarrow> int"
  clock_pos :: nat
  isMockMode :: bool
  provider :: "nat \<Rightarrow> ProviderRequest \<Rightarrow> provider_outcome"
  provider_calls :: "ProviderRequest list"
  timeouts :: "nat list"
  experiment_rows :: "ExperimentRow list"
  response_rows :: "ResponseRow list"
  metric_rows :: "MetricRow list"

definition Math_random :: "world \<Rightarrow> real \<times> world" where
  "Math_random w = (random_src w (random_pos w), w\<lparr>random_pos := Suc (random_pos w)\<rparr>)"

definition Date_now :: "world \<Rightarrow> int \<times> world" where
  "Date_now w = (clock_src w (clock_pos w), w\<lparr>clock_pos := Suc (clock_pos w)\<rparr>)"

definition setTimeout :: "nat \<Rightarrow> world \<Rightarrow> world" where
  "setTimeout delay w = w\<lparr>timeouts := timeouts w @ [delay]\<rparr>"

definition generateContent :: "ProviderRequest \<Rightarrow> world \<Rightarrow> provider_outcome \<times> world" where
  "generateContent req w =
     (provider w (length (provider_calls w)) req,
      w\<lparr>provider_calls := provider_calls w @ [req]\<rparr>)"

text \<open>The contract of \<open>Math.random()\<close>: every result lies in \<open>[0, 1)\<close>.\<close>

definition random_ok :: "world \<Rightarrow> bool" where
  "random_ok w = (\<forall>i. 0 \<le> random_src w i \<and> random_src w i < 1)"

section \<open>LLMService\<close>

datatype js_error = TypeError

record GeneratedResult =
  content :: string
  tokensUsed :: int
  generationTime :: int

text \<open>
  \<open>responses[Math.floor(r * responses.length)]\<close>: an index outside the array reads
  \<open>undefined\<close>, here \<open>None\<close>.
\<close>

definition pick :: "string list \<Rightarrow> real \<Rightarrow> string option" where
  "pick responses r =
     (let i = \<lfloor>r * real (length responses)\<rfloor>
      in if 0 \<le> i \<and> i < int (length responses) then Some (responses ! nat i) else None)"

definition generateCreativeWritingResponse ::
  "string \<Rightarrow> GenerationParameters \<Rightarrow> world \<Rightarrow> string option \<times> world" where
  "generateCreativeWritingResponse prompt parameters w =
     (let creativityLevel = (if temperature parameters > 0.7 then ''highly imaginative''
                             else if temperature parameters > 0.4 then ''moderately creative''
                             else ''structured'');
          responses = [
             ''Here's a '' @ creativityLevel @ '' story that captures the essence of your prompt. The narrative unfolds with careful attention to character development and plot progression, creating an engaging experience that draws readers into the world you've envisioned.'',
             ''This creative piece demonstrates the power of storytelling through '' @ creativityLevel @ '' narrative techniques. The characters come to life through dialogue and action, while the plot develops naturally from the initial premise. Each scene builds upon the previous one, creating a cohesive and compelling story.'',
             ''The story begins with an intriguing premise that immediately captures the reader's attention. Through '' @ creativityLevel @ '' storytelling, the narrative explores themes of growth, discovery, and human connection. The writing style adapts to the creative parameters, resulting in a unique voice that serves the story well.'',
             ''In this creative exploration, the author demonstrates mastery of narrative techniques while maintaining focus on the core story elements. The '' @ creativityLevel @ '' approach ensures that readers remain engaged throughout, with each paragraph contributing to the overall impact of the piece.'',
             ''This story showcases the art of creative writing through careful attention to detail and character development. The '' @ creativityLevel @ '' style creates an immersive experience that allows readers to connect with the characters and become invested in their journey.''];
          (r, w1) = Math_random w
      in (pick responses r, w1))"

definition generateExplanationResponse ::
  "string \<Rightarrow> GenerationParameters \<Rightarrow> world \<Rightarrow> string option \<times> world" where
  "generateExplanationResponse prompt parameters w =
     (let clarityLevel = (if temperature parameters < 0.5 then ''precise and technical''
                          else ''conversational and accessible'');
          responses = [
             ''Let me explain this concept in a '' @ clarityLevel @ '' manner. The topic involves several interconnected components that work together to create the overall system. Understanding each part helps build a comprehensive picture of how everything functions together.'',
             ''This explanation takes a '' @ clarityLevel @ '' approach to break down complex ideas into understandable components. Each section builds upon the previous one, creating a logical progression that helps readers grasp the fundamental concepts and their practical applications.'',
             ''To understand this topic fully, we need to examine it from multiple perspectives. This '' @ clarityLevel @ '' explanation provides the necessary context while maintaining clarity throughout. Key concepts are highlighted and supported with relevant examples that illustrate the main points effectively.'',
             ''The explanation begins with foundational knowledge and gradually introduces more advanced concepts. This '' @ clarityLevel @ '' approach ensures that readers can follow the reasoning and build their understanding progressively, making complex topics more accessible.'',
             ''This comprehensive explanation covers the essential aspects while acknowledging the complexity of the subject matter. The '' @ clarityLevel @ '' style ensures that readers can grasp both the theoretical framework and practical applications of the concepts being discussed.''];
          (r, w1) = Math_random w
      in (pick responses r, w1))"

definition generateQAResponse ::
  "string \<Rightarrow> GenerationParameters \<Rightarrow> world \<Rightarrow> string option \<times> world" where
  "generateQAResponse prompt parameters w =
     (let directness = (if temperature parameters < 0.4 then ''direct and concise''
                        else ''comprehensive and nuanced'');
          responses = [
             ''Based on the information available, here's a '' @ directness @ '' answer to your question. The response considers multiple factors and provides a balanced perspective that addresses the core aspects of what you're asking about.'',
             ''Your question touches on an important topic that requires careful consideration. This '' @ directness @ '' response examines the evidence and provides insights that help clarify the situation while acknowledging the complexity involved.'',
             ''To answer your question effectively, I'll provide a '' @ directness @ '' response that addresses both the immediate aspects and the broader context. This approach ensures you receive a complete and accurate answer that considers all relevant factors.'',
             ''The answer to your question involves several key considerations. This '' @ directness @ '' response provides a thorough analysis that helps explain not just what the answer is, but why it's the case and what implications it might have.'',
             ''Here's a '' @ directness @ '' response that addresses your question while providing the necessary context to understand the answer fully. The explanation considers different perspectives and evidence to arrive at a well-informed conclusion.''];
          (r, w1) = Math_random w
      in (pick responses r, w1))"

definition generateCodeResponse ::
  "string \<Rightarrow> GenerationParameters \<Rightarrow> world \<Rightarrow> string option \<times> world" where
  "generateCodeResponse prompt parameters w =
     (let complexity = (if temperature parameters > 0.6 then ''detailed and comprehensive''
                        else ''concise and focused'');
          responses = [
             ''Here's a '' @ complexity @ '' solution to your programming challenge. The code demonstrates best practices and includes clear comments that explain the logic and approach. The implementation is structured for readability and maintainability.'',
             ''This programming solution addresses your requirements using '' @ complexity @ '' techniques. The code follows clean code principles and includes proper error handling, making it robust and suitable for production use.'',
             ''The solution demonstrates effective problem-solving through '' @ complexity @ '' programming techniques. Each function has a clear purpose, and the overall architecture makes the code easy to understand, test, and modify as needed.'',
             ''This code implementation provides a solid foundation for the requested functionality. The '' @ complexity @ '' approach ensures that the solution is both complete and understandable, making it suitable for learning and practical application.'',
             ''Here's a '' @ complexity @ '' programming solution that showcases good software engineering practices. The code balances functionality with code quality, considering edge cases and providing clear documentation for future maintenance.''];
          (r, w1) = Math_random w
      in (pick responses r, w1))"

definition generateGeneralResponse ::
  "string \<Rightarrow> GenerationParameters \<Rightarrow> world \<Rightarrow> string option \<times> world" where
  "generateGeneralResponse prompt parameters w =
     (let style = (if temperature parameters > 0.7 then ''creative and engaging''
                   else if temperature parameters < 0.3 then ''formal and structured''
                   else ''balanced and informative'');
          responses = [
             ''This is an interesting topic that deserves thoughtful consideration. The '' @ style @ '' approach allows for a comprehensive exploration while maintaining focus on the key points that matter most to your specific question or request.'',
             ''Your prompt raises several important points that warrant careful analysis. The '' @ style @ '' style of response ensures that each aspect receives appropriate attention while maintaining coherence throughout the discussion.'',
             ''This topic encompasses multiple dimensions that are worth exploring in detail. The response takes a '' @ style @ '' approach, balancing depth with accessibility to provide a meaningful and engaging answer to your prompt.'',
             ''The subject matter you've raised involves various interconnected elements that work together to create a complex system. A '' @ style @ '' response allows for thorough coverage while ensuring that the main points are clearly communicated and well-supported.'',
             ''Your prompt addresses an important area that benefits from careful analysis and thoughtful consideration. The '' @ style @ '' approach ensures that the response is both informative and engaging, providing value while maintaining clarity and accessibility.''];
          (r, w1) = Math_random w
      in (pick responses r, w1))"

definition generateRealisticMockResponse ::
  "string \<Rightarrow> GenerationParameters \<Rightarrow> world \<Rightarrow> string option \<times> world" where
  "generateRealisticMockResponse prompt parameters w =
     (let promptLower = toLowerCase prompt
      in if str_includes promptLower ''story'' \<or> str_includes promptLower ''creative''
            \<or> str_includes promptLower ''write''
         then generateCreativeWritingResponse prompt parameters w
         else if str_includes promptLower ''explain'' \<or> str_includes promptLower ''how''
            \<or> str_includes promptLower ''what is''
         then generateExplanationResponse prompt parameters w
         else if str_includes promptLower ''?'' \<or> str_includes promptLower ''question''
         then generateQAResponse prompt parameters w
         else if str_includes promptLower ''code'' \<or> str_includes promptLower ''program''
            \<or> str_includes promptLower ''function''
         then generateCodeResponse prompt parameters w
         else generateGeneralResponse prompt parameters w)"

text \<open>
  Reading \<open>content.length\<close> of an \<open>undefined\<close> content raises a \<open>TypeError\<close>, before the
  second random number is drawn.
\<close>

definition generateMockResponse ::
  "string \<Rightarrow> GenerationParameters \<Rightarrow> int \<Rightarrow> world \<Rightarrow> (js_error + GeneratedResult) \<times> world" where
  "generateMockResponse prompt parameters startTime w =
     (let (c, w1) = generateRealisticMockResponse prompt parameters w
      in case c of
           None \<Rightarrow> (Inl TypeError, w1)
         | Some text \<Rightarrow>
             let (r1, w2) = Math_random w1;
                 tokensUsed = int (length text div 4) + \<lfloor>r1 * 50\<rfloor>;
                 (now, w3) = Date_now w2;
                 (r2, w4) = Math_random w3;
                 generationTime = now - startTime + \<lfloor>r2 * 1000\<rfloor>
             in (Inr \<lparr>content = text, tokensUsed = tokensUsed,
                       generationTime = generationTime\<rparr>, w4))"

definition enhancePrompt :: "string \<Rightarrow> string" where
  "enhancePrompt originalPrompt =
     ''Please provide a helpful, educational response to the following request. Focus on being informative and constructive. ''
     @ [CHR 0x0A, CHR 0x0A] @ ''Request: '' @ originalPrompt @ [CHR 0x0A, CHR 0x0A]
     @ ''Please respond with detailed, well-structured content that addresses the request thoroughly.''"

definition modelsToTry :: "GenerationParameters \<Rightarrow> string list" where
  "modelsToTry parameters =
     [case model parameters of None \<Rightarrow> ''gemini-2.5-flash''
        | Some m \<Rightarrow> (if m = [] then ''gemini-2.5-flash'' else m),
      ''gemini-1.5-flash'', ''gemini-1.5-pro'', ''gemini-pro'']"

text \<open>
  One pass of the loop over the models either returns from \<open>generateResponse\<close> (a result, or
  an error that escapes) or goes on with the next attempt.
\<close>

datatype loop_step = Return "js_error + GeneratedResult" | Continue

definition isRetryable :: "int option \<Rightarrow> bool" where
  "isRetryable status =
     (status = Some 503 \<or> status = Some 429 \<or> status = Some 500 \<or> status = Some 502)"

text \<open>The \<open>catch\<close> block, for an error with the given \<open>status\<close> (if it has one).\<close>

definition catch_block ::
  "string \<Rightarrow> GenerationParameters \<Rightarrow> int \<Rightarrow> nat \<Rightarrow> int option \<Rightarrow> world \<Rightarrow> loop_step \<times> world" where
  "catch_block prompt parameters startTime attempt status w =
     (if isRetryable status \<and> attempt < length (modelsToTry parameters) - 1 then
        let delay = min (1000 * 2 ^ attempt) 5000
        in (Continue, setTimeout delay w)
      else if attempt = length (modelsToTry parameters) - 1 then
        let (res, w1) = generateMockResponse prompt parameters startTime w
        in (Return res, w1)
      else (Continue, w))"

text \<open>The \<open>try\<close> block followed by the \<open>catch\<close> block, for one attempt.\<close>

definition attempt_body ::
  "string \<Rightarrow> GenerationParameters \<Rightarrow> int \<Rightarrow> nat \<Rightarrow> world \<Rightarrow> loop_step \<times> world" where
  "attempt_body prompt parameters startTime attempt w =
     (let modelName = modelsToTry parameters ! attempt;
          enhancedPrompt = enhancePrompt prompt;
          (outcome, w1) = generateContent
             \<lparr>req_model = modelName, req_temperature = temperature parameters,
              req_topP = top_p parameters, req_prompt = enhancedPrompt\<rparr> w
      in case outcome of
           Failure status \<Rightarrow> catch_block prompt parameters startTime attempt status w1
         | Text text \<Rightarrow>
             if text = [] \<or> length (trim text) = 0 then
               (if attempt = length (modelsToTry parameters) - 1 then
                  let (res, w2) = generateMockResponse prompt parameters startTime w1
                  in case res of
                       Inr result \<Rightarrow> (Return (Inr result), w2)
                     | Inl e \<Rightarrow> catch_block prompt parameters startTime attempt None w2
                else (Continue, w1))
             else
               let tokensUsed = int (length text div 4) + int (length prompt div 4);
                   (now, w2) = Date_now w1;
                   generationTime = now - startTime
               in (Return (Inr \<lparr>content = text, tokensUsed = tokensUsed,
                                 generationTime = generationTime\<rparr>), w2))"

text \<open>The \<open>for\<close> loop over the attempts still to make, and the code after it.\<close>

fun attempts ::
  "string \<Rightarrow> GenerationParameters \<Rightarrow> int \<Rightarrow> nat list \<Rightarrow> world
   \<Rightarrow> (js_error + GeneratedResult) \<times> world" where
  "attempts prompt parameters startTime [] w =
     generateMockResponse prompt parameters startTime w"
| "attempts prompt parameters startTime (attempt # rest) w =
     (case attempt_body prompt parameters startTime attempt w of
        (Return res, w1) \<Rightarrow> (res, w1)
      | (Continue, w1) \<Rightarrow> attempts prompt parameters startTime rest w1)"

definition generateResponse ::
  "string \<Rightarrow> GenerationParameters \<Rightarrow> world \<Rightarrow> (js_error + GeneratedResult) \<times> world" where
  "generateResponse prompt parameters w =
     (let (startTime, w1) = Date_now w;
          (requestId, w2) = Math_random w1
      in if isMockMode w2 then generateMockResponse prompt parameters startTime w2
         else attempts prompt parameters startTime [0 ..< length (modelsToTry parameters)] w2)"

text \<open>
  \<open>generateMultipleResponses\<close>: the results in the order of the parameter tuples; a call
  that raises is skipped. The delay is waited unless the tuple is the last one.
\<close>

record BatchResult = GeneratedResult +
  parameters :: GenerationParameters

fun batch_loop :: "string \<Rightarrow> GenerationParameters list \<Rightarrow> world \<Rightarrow> BatchResult list \<times> world" where
  "batch_loop prompt [] w = ([], w)"
| "batch_loop prompt (params # rest) w =
     (case generateResponse prompt params w of
        (Inr result, w1) \<Rightarrow>
          let w2 = (if rest \<noteq> [] then setTimeout 1000 w1 else w1);
              (results, w3) = batch_loop prompt rest w2
          in (\<lparr>content = content result, tokensUsed = tokensUsed result,
               generationTime = generationTime result, parameters = params\<rparr> # results, w3)
      | (Inl e, w1) \<Rightarrow>
          let w2 = (if rest \<noteq> [] then setTimeout 3000 w1 else w1)
          in batch_loop prompt rest w2)"

definition generateMultipleResponses ::
  "string \<Rightarrow> GenerationParameters list \<Rightarrow> world \<Rightarrow> BatchResult list \<times> world" where
  "generateMultipleResponses prompt parameterCombinations w =
     (let (batchId, w1) = Math_random w
      in batch_loop prompt parameterCombinations w1)"

section \<open>The generation route\<close>

definition randomInRange :: "real \<Rightarrow> real \<Rightarrow> world \<Rightarrow> real \<times> world" where
  "randomInRange lo hi w = (let (r, w1) = Math_random w in (r * (hi - lo) + lo, w1))"

text \<open>The body of the sampling loop: three draws, in the order of the source.\<close>

definition sample_combination :: "ParameterRange \<Rightarrow> world \<Rightarrow> GenerationParameters \<times> world" where
  "sample_combination prange w =
     (let (temperature, w1) = randomInRange (min_bound (range_temperature prange))
                                            (max_bound (range_temperature prange)) w;
          (topP, w2) = randomInRange (min_bound (range_top_p prange))
                                     (max_bound (range_top_p prange)) w1;
          (tokens, w3) = randomInRange (min_bound (range_max_tokens prange))
                                       (max_bound (range_max_tokens prange)) w2;
          maxTokens = of_int \<lfloor>tokens\<rfloor>
      in (\<lparr>temperature = round2 temperature, top_p = round2 topP, max_tokens = maxTokens,
           model = Some ''gemini-2.5-flash''\<rparr>, w3))"

primrec combinations_loop ::
  "nat \<Rightarrow> ParameterRange \<Rightarrow> world \<Rightarrow> GenerationParameters list \<times> world" where
  "combinations_loop 0 prange w = ([], w)"
| "combinations_loop (Suc n) prange w =
     (let (p, w1) = sample_combination prange w;
          (ps, w2) = combinations_loop n prange w1
      in (p # ps, w2))"

text \<open>
  \<open>for (let i = 0; i < count; i++)\<close> runs \<open>count\<close> times, and not at all for a count
  below one. The run count is an integer here.
\<close>

definition generateParameterCombinations ::
  "ParameterRange \<Rightarrow> int \<Rightarrow> world \<Rightarrow> GenerationParameters list \<times> world" where
  "generateParameterCombinations prange count w = combinations_loop (nat count) prange w"

record ResponseData =
  rd_id :: nat
  rd_content :: string
  rd_parameters :: GenerationParameters
  rd_metrics :: QualityMetrics
  rd_metricDetails :: "(string \<times> MetricDetails) list"
  rd_model :: string
  rd_tokensUsed :: int
  rd_generationTime :: int

text \<open>
  The totals of the four sub-scores are summed over the responses and divided by their
  number; each average is rounded and the overall score is computed from the averages.
\<close>

definition averageMetrics :: "QualityMetrics list \<Rightarrow> QualityMetrics" where
  "averageMetrics ms =
     (let totalCoherence = foldl (\<lambda>t m. num_add t (coherence m)) (Num 0) ms;
          totalCompleteness = foldl (\<lambda>t m. num_add t (completeness m)) (Num 0) ms;
          totalReadability = foldl (\<lambda>t m. num_add t (readability m)) (Num 0) ms;
          totalRelevance = foldl (\<lambda>t m. num_add t (relevance m)) (Num 0) ms;
          responseCount = Num (real (length ms));
          averageMetrics0 =
            \<lparr>coherence = num_round2 (num_div totalCoherence responseCount),
             completeness = num_round2 (num_div totalCompleteness responseCount),
             readability = num_round2 (num_div totalReadability responseCount),
             relevance = num_round2 (num_div totalRelevance responseCount),
             overallScore = Num 0\<rparr>
      in averageMetrics0\<lparr>overallScore := calculateOverallScore averageMetrics0\<rparr>)"

record GenerationRequest =
  body_prompt :: "string option"
  body_parameterRange :: "ParameterRange option"
  body_numberOfRuns :: "int option"

record GenerationResponse =
  gr_experimentId :: nat
  gr_responses :: "ResponseData list"
  gr_totalRuns :: nat
  gr_averageMetrics :: QualityMetrics

datatype http_response = Status400 string | Status200 GenerationResponse

text \<open>\<open>detail.score || 0\<close>: zero for \<open>NaN\<close>.\<close>

fun or_zero :: "number \<Rightarrow> number" where
  "or_zero NaN = Num 0"
| "or_zero (Num x) = Num x"

definition default_model :: "string option \<Rightarrow> string" where
  "default_model m = (case m of None \<Rightarrow> ''gemini-2.5-flash''
                      | Some n \<Rightarrow> (if n = [] then ''gemini-2.5-flash'' else n))"

text \<open>The loop over the generation results: metrics, database rows and response data.\<close>

fun process_results ::
  "nat \<Rightarrow> string \<Rightarrow> BatchResult list \<Rightarrow> world \<Rightarrow> ResponseData list \<times> world" where
  "process_results experiment prompt [] w = ([], w)"
| "process_results experiment prompt (result # rest) w =
     (let am = calculateAllMetrics (content result) prompt;
          response_id = length (response_rows w);
          w1 = w\<lparr>response_rows := response_rows w @
                 [\<lparr>row_experiment = experiment, row_parameters = parameters result,
                   row_content = content result, row_metrics = metrics am,
                   row_model = default_model (model (parameters result)),
                   row_tokensUsed = tokensUsed result,
                   row_generationTime = generationTime result\<rparr>]\<rparr>;
          w2 = w1\<lparr>metric_rows := metric_rows w1 @
                 map (\<lambda>(metricType, detail).
                        \<lparr>row_response = response_id, metricType = metricType,
                         row_score = or_zero (score detail)\<rparr>) (details am)\<rparr>;
          response = \<lparr>rd_id = response_id, rd_content = content result,
                      rd_parameters = parameters result, rd_metrics = metrics am,
                      rd_metricDetails = details am,
                      rd_model = default_model (model (parameters result)),
                      rd_tokensUsed = tokensUsed result,
                      rd_generationTime = generationTime result\<rparr>;
          (responses, w3) = process_results experiment prompt rest w2
      in (response # responses, w3))"

text \<open>
  The handler of \<open>POST /\<close>. \<open>!prompt\<close> holds for a missing or empty prompt,
  \<open>!numberOfRuns\<close> for a missing or zero run count.
\<close>

definition post_generation :: "GenerationRequest \<Rightarrow> world \<Rightarrow> http_response \<times> world" where
  "post_generation body w =
     (let (experimentId, w1) = Math_random w
      in case (body_prompt body, body_parameterRange body, body_numberOfRuns body) of
           (Some prompt, Some parameterRange, Some numberOfRuns) \<Rightarrow>
             if prompt = [] \<or> numberOfRuns = 0 then
               (Status400 ''Missing required fields: prompt, parameterRange, numberOfRuns'', w1)
             else if numberOfRuns > 20 then
               (Status400 ''Maximum 20 runs allowed per request'', w1)
             else
               let (parameterCombinations, w2) =
                     generateParameterCombinations parameterRange numberOfRuns w1;
                   experiment = length (experiment_rows w2);
                   w3 = w2\<lparr>experiment_rows := experiment_rows w2 @
                          [\<lparr>exp_prompt = prompt, exp_range = parameterRange,
                            totalRuns = numberOfRuns\<rparr>]\<rparr>;
                   (generationResults, w4) =
                     generateMultipleResponses prompt parameterCombinations w3;
                   (responses, w5) = process_results experiment prompt generationResults w4;
                   responseCount = length responses;
                   average = averageMetrics (map rd_metrics responses);
                   w6 = w5\<lparr>experiment_rows := (experiment_rows w5)
                          [experiment := (experiment_rows w5 ! experiment)
                             \<lparr>totalRuns := int responseCount\<rparr>]\<rparr>
               in (Status200 \<lparr>gr_experimentId = experiment, gr_responses = responses,
                              gr_totalRuns = responseCount, gr_averageMetrics = average\<rparr>, w6)
         | _ \<Rightarrow> (Status400 ''Missing required fields: prompt, parameterRange, numberOfRuns'', w1))"

section \<open>The export route\<close>

text \<open>
  \<open>calculateAverageMetrics\<close> of the export route averages all five stored scores, the
  overall score among them; \<open>x || 0\<close> reads a missing score as zero. For no results it
  returns the empty object \<open>{}\<close>, here \<open>None\<close>.
\<close>

definition calculateAverageMetrics :: "QualityMetrics list \<Rightarrow> QualityMetrics option" where
  "calculateAverageMetrics results =
     (if length results = 0 then None
      else
        let totals = foldl (\<lambda>acc result.
                \<lparr>coherence = num_add (coherence acc) (or_zero (coherence result)),
                 completeness = num_add (completeness acc) (or_zero (completeness result)),
                 readability = num_add (readability acc) (or_zero (readability result)),
                 relevance = num_add (relevance acc) (or_zero (relevance result)),
                 overallScore = num_add (overallScore acc) (or_zero (overallScore result))\<rparr>)
              \<lparr>coherence = Num 0, completeness = Num 0, readability = Num 0,
               relevance = Num 0, overallScore = Num 0\<rparr> results;
            n = Num (real (length results))
        in Some \<lparr>coherence = num_round2 (num_div (coherence totals) n),
                 completeness = num_round2 (num_div (completeness totals) n),
                 readability = num_round2 (num_div (readability totals) n),
                 relevance = num_round2 (num_div (relevance totals) n),
                 overallScore = num_round2 (num_div (overallScore totals) n)\<rparr>)"

section \<open>Definitions for the statements\<close>


text \<open>A runtime and a parameter tuple to evaluate the code at.\<close>

definition example_world :: world where
  "example_world =
     \<lparr>random_src = (\<lambda>i. 3 / 10), random_pos = 0,
      clock_src = (\<lambda>i. 1000 + int i), clock_pos = 0,
      isMockMode = False, provider = (\<lambda>n req. Text []), provider_calls = [],
      timeouts = [], experiment_rows = [], response_rows = [], metric_rows = []\<rparr>"

definition example_parameters :: GenerationParameters where
  "example_parameters = \<lparr>temperature = 0.5, top_p = 0.9, max_tokens = 100, model = None\<rparr>"

definition example_range :: ParameterRange where
  "example_range =
     \<lparr>range_temperature = \<lparr>min_bound = 0.1, max_bound = 0.9, step = 0.1\<rparr>,
      range_top_p = \<lparr>min_bound = 0.5, max_bound = 1, step = 0.1\<rparr>,
      range_max_tokens = \<lparr>min_bound = 100, max_bound = 500, step = 1\<rparr>\<rparr>"


text \<open>The four keyword tests of the mock generator, in the order of the source.\<close>

definition creative_keywords :: "string \<Rightarrow> bool" where
  "creative_keywords prompt =
     (str_includes (toLowerCase prompt) ''story'' \<or> str_includes (toLowerCase prompt) ''creative''
      \<or> str_includes (toLowerCase prompt) ''write'')"

definition explanatory_keywords :: "string \<Rightarrow> bool" where
  "explanatory_keywords prompt =
     (str_includes (toLowerCase prompt) ''explain'' \<or> str_includes (toLowerCase prompt) ''how''
      \<or> str_includes (toLowerCase prompt) ''what is'')"

definition question_markers :: "string \<Rightarrow> bool" where
  "question_markers prompt =
     (str_includes (toLowerCase prompt) ''?'' \<or> str_includes (toLowerCase prompt) ''question'')"

definition code_keywords :: "string \<Rightarrow> bool" where
  "code_keywords prompt =
     (str_includes (toLowerCase prompt) ''code'' \<or> str_includes (toLowerCase prompt) ''program''
      \<or> str_includes (toLowerCase prompt) ''function'')"








text \<open>
  A provider that answers every request with blank text, and the request sent for a model.
\<close>

definition blank_provider :: "world \<Rightarrow> bool" where
  "blank_provider w = (\<forall>n req. \<exists>t. provider w n req = Text t \<and> trim t = [])"

definition request_for :: "string \<Rightarrow> GenerationParameters \<Rightarrow> string \<Rightarrow> ProviderRequest" where
  "request_for prompt params m =
     \<lparr>req_model = m, req_temperature = temperature params, req_topP = top_p params,
      req_prompt = enhancePrompt prompt\<rparr>"

section \<open>Properties of the scoring engine\<close>

lemma round2_hundredth: "\<exists>k::int. round2 x = of_int k / 100"
  by (auto simp: round2_def Math_round_def)

lemma round2_mono: "x \<le> y \<Longrightarrow> round2 x \<le> round2 y"
  by (simp add: round2_def Math_round_def floor_mono divide_right_mono)

lemma round2_of_int: "round2 (of_int k / 100) = of_int k / 100"
  by (simp add: round2_def Math_round_def)

lemma round2_between:
  assumes "of_int a / 100 \<le> x" "x \<le> of_int b / 100"
  shows "of_int a / 100 \<le> round2 x \<and> round2 x \<le> of_int b / 100"
  using round2_mono [OF assms(1)] round2_mono [OF assms(2)] by (simp add: round2_of_int)

lemma round2_unit:
  assumes "0 \<le> x" "x \<le> 1"
  shows "0 \<le> round2 x \<and> round2 x \<le> 1"
  using round2_between [of 0 x 100] assms by simp

lemma ratio_unit: "a \<le> b \<Longrightarrow> 0 \<le> real a / real b \<and> real a / real b \<le> 1"
  by (cases "b = 0") (simp_all add: divide_le_eq_1)

lemma calculateCoherence_range:
  "\<exists>x. score (calculateCoherence text) = Num x \<and> 0 \<le> x \<and> x \<le> 1"
proof -
  let ?words = "filter (\<lambda>word. length word > 0) (split_on is_space (toLowerCase text))"
  let ?ratio = "real (length (remdups ?words)) / real (length ?words)"
  have "0 \<le> ?ratio" "?ratio \<le> 1"
    using ratio_unit [OF length_remdups_leq, of ?words] by simp_all
  then have "0 \<le> min 1 (?ratio * 1.2)" "min 1 (?ratio * 1.2) \<le> 1" by simp_all
  then have "0 \<le> round2 (min 1 (?ratio * 1.2)) \<and> round2 (min 1 (?ratio * 1.2)) \<le> 1"
    by (rule round2_unit)
  then show ?thesis
    by (simp add: calculateCoherence_def Let_def)
qed

lemma overlap_le: "length (filter P (remdups ws)) \<le> length ws"
  by (rule order_trans [OF length_filter_le length_remdups_leq])

lemma calculateCompleteness_range:
  "\<exists>x. score (calculateCompleteness text prompt) = Num x \<and> 0 \<le> x \<and> x \<le> 1"
proof -
  let ?pw = "filter (\<lambda>word. length word > 2) (split_on is_space (toLowerCase prompt))"
  let ?cw = "filter (\<lambda>word. length word > 2) (split_on is_space (toLowerCase text))"
  let ?overlap = "length (filter (\<lambda>word. word \<in> set (remdups ?cw)) (remdups ?pw))"
  define ratio where "ratio = (if length ?pw > 0 then real ?overlap / real (length ?pw) else 0)"
  define s0 where "s0 = min 1 (ratio * 1.5)"
  define s1 where "s1 = (if list_ex (\<lambda>q. str_includes (toLowerCase prompt) q) questionWords
        \<and> list_ex (\<lambda>a. str_includes (toLowerCase text) a) answerIndicators
      then min 1 (s0 + 0.2) else s0)"
  define s2 where "s2 = (if length ?cw < 10 then s1 * 0.7 else s1)"
  have "0 \<le> ratio" "ratio \<le> 1"
    using ratio_unit [OF overlap_le, of "\<lambda>word. word \<in> set (remdups ?cw)" ?pw]
    by (simp_all add: ratio_def)
  then have "0 \<le> s0" "s0 \<le> 1" by (simp_all add: s0_def)
  then have "0 \<le> s1" "s1 \<le> 1" by (simp_all add: s1_def)
  then have "0 \<le> s2" "s2 \<le> 1" by (simp_all add: s2_def)
  then have "0 \<le> round2 s2 \<and> round2 s2 \<le> 1" by (rule round2_unit)
  moreover have "score (calculateCompleteness text prompt) = Num (round2 s2)"
    by (simp add: calculateCompleteness_def Let_def s2_def s1_def s0_def ratio_def)
  ultimately show ?thesis by simp
qed

lemma calculateRelevance_range:
  "\<exists>x. score (calculateRelevance text prompt) = Num x \<and> 0 \<le> x \<and> x \<le> 1"
proof -
  let ?pw = "filter (\<lambda>word. word \<notin> set stopWords)
      (filter (\<lambda>word. length word > 2) (split_on is_space (toLowerCase prompt)))"
  let ?cw = "filter (\<lambda>word. word \<notin> set stopWords)
      (filter (\<lambda>word. length word > 2) (split_on is_space (toLowerCase text)))"
  let ?overlap = "length (filter (\<lambda>word. word \<in> set (remdups ?cw)) (remdups ?pw))"
  define ratio where "ratio = real ?overlap / real (length ?pw)"
  define t where "t = min 1 (ratio * 1.3)"
  define s where "s = (if ratio < 0.1 then t * 0.5 else t)"
  have "0 \<le> ratio" "ratio \<le> 1"
    using ratio_unit [OF overlap_le, of "\<lambda>word. word \<in> set (remdups ?cw)" ?pw]
    by (simp_all add: ratio_def)
  then have "0 \<le> t" "t \<le> 1" by (simp_all add: t_def)
  then have "0 \<le> s" "s \<le> 1" by (simp_all add: s_def)
  then have r: "0 \<le> round2 s \<and> round2 s \<le> 1" by (rule round2_unit)
  show ?thesis
  proof (cases "length ?pw = 0")
    case True
    then have e: "score (calculateRelevance text prompt) = Num (1 / 2)"
      by (simp add: calculateRelevance_def Let_def)
    show ?thesis unfolding e by (rule exI [of _ "1 / 2"]) simp
  next
    case False
    then have "score (calculateRelevance text prompt) = Num (round2 s)"
      by (simp add: calculateRelevance_def Let_def s_def t_def ratio_def)
    with r show ?thesis by simp
  qed
qed

lemma calculateReadability_upper:
  "\<exists>x. score (calculateReadability text) = Num x \<and> x \<le> 1"
proof -
  let ?sentences = "filter (\<lambda>s. length (trim s) > 0) (split_on is_stop text)"
  let ?lens = "map (\<lambda>s. length (split_on is_space (trim s))) ?sentences"
  define avg where "avg = real (foldl (\<lambda>a b. a + b) 0 ?lens) / real (length ?lens)"
  define ls where "ls = 1 - \<bar>avg - 17.5\<bar> / 17.5"
  define var where "var = foldl (\<lambda>acc len. acc + (real len - avg)\<^sup>2) 0 ?lens / real (length ?lens)"
  define vs where "vs = min 1 (var / 50)"
  have "ls \<le> 1" by (simp add: ls_def)
  moreover have "vs \<le> 1" by (simp add: vs_def)
  ultimately have "ls * 0.7 + vs * 0.3 \<le> 1" by simp
  then have "round2 (ls * 0.7 + vs * 0.3) \<le> round2 1" by (rule round2_mono)
  then have r: "round2 (ls * 0.7 + vs * 0.3) \<le> 1" by (simp add: round2_def Math_round_def)
  show ?thesis
  proof (cases "length ?sentences = 0")
    case True
    then show ?thesis by (simp add: calculateReadability_def Let_def)
  next
    case False
    then have "score (calculateReadability text) = Num (round2 (ls * 0.7 + vs * 0.3))"
      by (simp add: calculateReadability_def Let_def ls_def vs_def var_def avg_def)
    with r show ?thesis by simp
  qed
qed

text \<open>
  Claim C1 (each of the four scorers returns a score in the closed interval [0,1] for every
  string). \<open>calculateReadability\<close> breaks it: \<open>lengthScore\<close> is
  \<open>1 - |averageLength - 17.5| / 17.5\<close>, which is negative for an average sentence length
  above 35 words, and nothing clamps it. A single sentence of 36 words has variance 0 and
  the score \<open>-0.04\<close>.
\<close>

theorem calculateReadability_negative:
  "score (calculateReadability
     ''a a a a a a a a a a a a a a a a a a a a a a a a a a a a a a a a a a a a'')
   = Num (- 0.04)"
  by (simp add: calculateReadability_def split_on_def is_stop_def is_space_def trim_def
      round2_def Math_round_def Let_def)


section \<open>Properties of the aggregation\<close>





text \<open>
  Claim C6 (aggregating an empty list signals "no data" explicitly and returns no metrics
  object). The generation route divides the zero totals by a zero \<open>responseCount\<close> without
  a guard: the aggregate of no responses is a metrics object whose five fields are
  \<open>NaN\<close>. The export route has the guard and returns the empty object.
\<close>

theorem averageMetrics_empty_NaN:
  "averageMetrics [] = \<lparr>coherence = NaN, completeness = NaN, readability = NaN,
       relevance = NaN, overallScore = NaN\<rparr>
   \<and> calculateAverageMetrics [] = None"
  by (simp add: averageMetrics_def calculateOverallScore_def calculateAverageMetrics_def)

section \<open>Properties of the provider adapter\<close>

lemma attempt_indices: "[0..<length (modelsToTry p)] = [0, 1, 2, 3]"
  by (simp add: modelsToTry_def upt_conv_Cons)

lemma random_ok_src: "random_src w' = random_src w \<Longrightarrow> random_ok w \<Longrightarrow> random_ok w'"
  by (simp add: random_ok_def)

lemma pick_in_range:
  assumes "0 \<le> r" "r < 1" "rs \<noteq> []"
  shows "\<exists>s. pick rs r = Some s \<and> s \<in> set rs"
proof -
  let ?n = "length rs"
  have n: "0 < real ?n" using assms(3) by simp
  have lo: "0 \<le> \<lfloor>r * real ?n\<rfloor>" using assms(1) by simp
  have "r * real ?n < real ?n" using assms(2) n by simp
  then have hi: "\<lfloor>r * real ?n\<rfloor> < int ?n" by (simp add: floor_less_iff)
  from lo hi have "nat \<lfloor>r * real ?n\<rfloor> < ?n" by linarith
  then have "rs ! nat \<lfloor>r * real ?n\<rfloor> \<in> set rs" by (rule nth_mem)
  with lo hi show ?thesis by (simp add: pick_def Let_def)
qed

lemma pick_nonempty:
  assumes "0 \<le> r" "r < 1" "rs \<noteq> []" "\<forall>s \<in> set rs. s \<noteq> []"
  shows "\<exists>s. pick rs r = Some s \<and> s \<noteq> []"
  using pick_in_range [OF assms(1-3)] assms(4) by blast

lemma creative_some:
  assumes "random_ok w"
  shows "\<exists>s. generateCreativeWritingResponse prompt params w
           = (Some s, w\<lparr>random_pos := Suc (random_pos w)\<rparr>) \<and> s \<noteq> []"
proof -
  from assms have r: "0 \<le> random_src w (random_pos w)" "random_src w (random_pos w) < 1"
    by (simp_all add: random_ok_def)
  show ?thesis
    unfolding generateCreativeWritingResponse_def Math_random_def Let_def split_conv
    using pick_nonempty [OF r] by simp
qed

lemma explanation_some:
  assumes "random_ok w"
  shows "\<exists>s. generateExplanationResponse prompt params w
           = (Some s, w\<lparr>random_pos := Suc (random_pos w)\<rparr>) \<and> s \<noteq> []"
proof -
  from assms have r: "0 \<le> random_src w (random_pos w)" "random_src w (random_pos w) < 1"
    by (simp_all add: random_ok_def)
  show ?thesis
    unfolding generateExplanationResponse_def Math_random_def Let_def split_conv
    using pick_nonempty [OF r] by simp
qed

lemma qa_some:
  assumes "random_ok w"
  shows "\<exists>s. generateQAResponse prompt params w
           = (Some s, w\<lparr>random_pos := Suc (random_pos w)\<rparr>) \<and> s \<noteq> []"
proof -
  from assms have r: "0 \<le> random_src w (random_pos w)" "random_src w (random_pos w) < 1"
    by (simp_all add: random_ok_def)
  show ?thesis
    unfolding generateQAResponse_def Math_random_def Let_def split_conv
    using pick_nonempty [OF r] by simp
qed

lemma code_some:
  assumes "random_ok w"
  shows "\<exists>s. generateCodeResponse prompt params w
           = (Some s, w\<lparr>random_pos := Suc (random_pos w)\<rparr>) \<and> s \<noteq> []"
proof -
  from assms have r: "0 \<le> random_src w (random_pos w)" "random_src w (random_pos w) < 1"
    by (simp_all add: random_ok_def)
  show ?thesis
    unfolding generateCodeResponse_def Math_random_def Let_def split_conv
    using pick_nonempty [OF r] by simp
qed

lemma general_some:
  assumes "random_ok w"
  shows "\<exists>s. generateGeneralResponse prompt params w
           = (Some s, w\<lparr>random_pos := Suc (random_pos w)\<rparr>) \<and> s \<noteq> []"
proof -
  from assms have r: "0 \<le> random_src w (random_pos w)" "random_src w (random_pos w) < 1"
    by (simp_all add: random_ok_def)
  show ?thesis
    unfolding generateGeneralResponse_def Math_random_def Let_def split_conv
    using pick_nonempty [OF r] by simp
qed

lemma realistic_some:
  assumes "random_ok w"
  shows "\<exists>s. generateRealisticMockResponse prompt params w
           = (Some s, w\<lparr>random_pos := Suc (random_pos w)\<rparr>) \<and> s \<noteq> []"
  unfolding generateRealisticMockResponse_def Let_def
  using creative_some [OF assms] explanation_some [OF assms] qa_some [OF assms]
    code_some [OF assms] general_some [OF assms]
  by simp

lemma mock_resolves:
  assumes "random_ok w"
  shows "\<exists>r w'. generateMockResponse prompt params startTime w = (Inr r, w')
           \<and> content r \<noteq> [] \<and> random_src w' = random_src w"
proof -
  from realistic_some [OF assms] obtain s where
    s: "generateRealisticMockResponse prompt params w
          = (Some s, w\<lparr>random_pos := Suc (random_pos w)\<rparr>)" "s \<noteq> []"
    by blast
  show ?thesis
    by (simp add: generateMockResponse_def s Math_random_def Date_now_def Let_def)
qed

lemma catch_block_cases:
  assumes "random_ok w"
  shows "(\<exists>r w'. catch_block prompt params startTime attempt status w = (Return (Inr r), w')
            \<and> content r \<noteq> [])
       \<or> (\<exists>w'. catch_block prompt params startTime attempt status w = (Continue, w')
            \<and> random_src w' = random_src w)"
proof -
  from mock_resolves [OF assms, of prompt params startTime] obtain r w' where
    "generateMockResponse prompt params startTime w = (Inr r, w')" "content r \<noteq> []"
    by blast
  then show ?thesis
    by (simp add: catch_block_def setTimeout_def Let_def)
qed

lemma attempt_body_cases:
  assumes "random_ok w"
  shows "(\<exists>r w'. attempt_body prompt params startTime attempt w = (Return (Inr r), w')
            \<and> content r \<noteq> [])
       \<or> (\<exists>w'. attempt_body prompt params startTime attempt w = (Continue, w')
            \<and> random_src w' = random_src w)"
proof -
  let ?req = "\<lparr>req_model = modelsToTry params ! attempt, req_temperature = temperature params,
               req_topP = top_p params, req_prompt = enhancePrompt prompt\<rparr>"
  let ?w1 = "w\<lparr>provider_calls := provider_calls w @ [?req]\<rparr>"
  have ok1: "random_ok ?w1" using assms by (simp add: random_ok_def)
  show ?thesis
  proof (cases "provider w (length (provider_calls w)) ?req")
    case (Failure status)
    with catch_block_cases [OF ok1, of prompt params startTime attempt status]
    show ?thesis
      by (simp add: attempt_body_def generateContent_def Let_def)
  next
    case (Text t)
    from mock_resolves [OF ok1, of prompt params startTime] obtain r w' where
      m: "generateMockResponse prompt params startTime ?w1 = (Inr r, w')" "content r \<noteq> []"
      by blast
    from Text m show ?thesis
      by (auto simp: attempt_body_def generateContent_def Let_def Date_now_def)
  qed
qed

lemma attempts_resolve:
  "random_ok w \<Longrightarrow>
   \<exists>r w'. attempts prompt params startTime todo w = (Inr r, w') \<and> content r \<noteq> []"
proof (induction todo arbitrary: w)
  case Nil
  from mock_resolves [OF Nil, of prompt params startTime] show ?case by auto
next
  case (Cons attempt rest)
  from attempt_body_cases [OF Cons.prems, of prompt params startTime attempt]
  show ?case
  proof
    assume "\<exists>r w'. attempt_body prompt params startTime attempt w = (Return (Inr r), w')
              \<and> content r \<noteq> []"
    then show ?thesis by auto
  next
    assume "\<exists>w'. attempt_body prompt params startTime attempt w = (Continue, w')
              \<and> random_src w' = random_src w"
    then obtain w' where w': "attempt_body prompt params startTime attempt w = (Continue, w')"
      "random_src w' = random_src w" by blast
    from w'(2) Cons.prems have "random_ok w'" by (rule random_ok_src)
    from Cons.IH [OF this] w'(1) show ?thesis by simp
  qed
qed

lemma generateResponse_resolves:
  assumes "random_ok w"
  shows "\<exists>r w'. generateResponse prompt params w = (Inr r, w') \<and> content r \<noteq> []"
proof -
  let ?w2 = "w\<lparr>clock_pos := Suc (clock_pos w), random_pos := Suc (random_pos w)\<rparr>"
  let ?t = "clock_src w (clock_pos w)"
  have ok: "random_ok ?w2" using assms by (simp add: random_ok_def)
  show ?thesis
  proof (cases "isMockMode w")
    case True
    from mock_resolves [OF ok, of prompt params ?t] obtain r w' where
      "generateMockResponse prompt params ?t ?w2 = (Inr r, w')" "content r \<noteq> []" by blast
    with True show ?thesis
      by (simp add: generateResponse_def Date_now_def Math_random_def Let_def)
  next
    case False
    from attempts_resolve [OF ok, of prompt params ?t "[0 ..< length (modelsToTry params)]"]
    obtain r w' where
      "attempts prompt params ?t [0 ..< length (modelsToTry params)] ?w2 = (Inr r, w')"
      "content r \<noteq> []" by blast
    with False show ?thesis
      by (simp add: generateResponse_def Date_now_def Math_random_def Let_def)
  qed
qed

lemma attempt_body_blank:
  assumes "blank_provider w" "attempt < 3"
  shows "attempt_body prompt params startTime attempt w
         = (Continue, w\<lparr>provider_calls := provider_calls w
               @ [request_for prompt params (modelsToTry params ! attempt)]\<rparr>)"
proof -
  from assms(1) obtain t where
    "provider w (length (provider_calls w))
       (request_for prompt params (modelsToTry params ! attempt)) = Text t" "trim t = []"
    unfolding blank_provider_def by blast
  with assms(2) show ?thesis
    by (simp add: attempt_body_def generateContent_def Let_def request_for_def modelsToTry_def)
qed

lemma attempt_body_blank_last:
  assumes "blank_provider w" "random_ok w"
  shows "attempt_body prompt params startTime 3 w
         = (Return (fst (generateMockResponse prompt params startTime
                (w\<lparr>provider_calls := provider_calls w
                    @ [request_for prompt params (modelsToTry params ! 3)]\<rparr>))),
            snd (generateMockResponse prompt params startTime
                (w\<lparr>provider_calls := provider_calls w
                    @ [request_for prompt params (modelsToTry params ! 3)]\<rparr>)))"
proof -
  let ?w1 = "w\<lparr>provider_calls := provider_calls w
                  @ [request_for prompt params (modelsToTry params ! 3)]\<rparr>"
  from assms(1) obtain t where t:
    "provider w (length (provider_calls w))
       (request_for prompt params (modelsToTry params ! 3)) = Text t" "trim t = []"
    unfolding blank_provider_def by blast
  have "random_ok ?w1" using assms(2) by (simp add: random_ok_def)
  from mock_resolves [OF this, of prompt params startTime] obtain r w' where
    "generateMockResponse prompt params startTime ?w1 = (Inr r, w')" by blast
  with t show ?thesis
    by (simp add: attempt_body_def generateContent_def Let_def request_for_def modelsToTry_def)
qed

lemma attempts_blank:
  assumes "blank_provider w" "random_ok w"
  shows "attempts prompt params startTime [0 ..< length (modelsToTry params)] w
         = generateMockResponse prompt params startTime
             (w\<lparr>provider_calls := provider_calls w
                 @ map (request_for prompt params) (modelsToTry params)\<rparr>)"
proof -
  let ?q = "\<lambda>i. request_for prompt params (modelsToTry params ! i)"
  let ?w1 = "w\<lparr>provider_calls := provider_calls w @ [?q 0]\<rparr>"
  let ?w2 = "w\<lparr>provider_calls := provider_calls w @ [?q 0, ?q (Suc 0)]\<rparr>"
  let ?w3 = "w\<lparr>provider_calls := provider_calls w @ [?q 0, ?q (Suc 0), ?q 2]\<rparr>"
  let ?w4 = "w\<lparr>provider_calls := provider_calls w @ [?q 0, ?q (Suc 0), ?q 2, ?q 3]\<rparr>"
  have b1: "blank_provider ?w1" and b2: "blank_provider ?w2" and b3: "blank_provider ?w3"
    using assms(1) by (simp_all add: blank_provider_def)
  have ok3: "random_ok ?w3" using assms(2) by (simp add: random_ok_def)
  have s0: "attempt_body prompt params startTime 0 w = (Continue, ?w1)"
    using attempt_body_blank [OF assms(1), of 0] by simp
  have s1: "attempt_body prompt params startTime (Suc 0) ?w1 = (Continue, ?w2)"
    using attempt_body_blank [OF b1, of "Suc 0"] by simp
  have s2: "attempt_body prompt params startTime 2 ?w2 = (Continue, ?w3)"
    using attempt_body_blank [OF b2, of 2] by simp
  have s3: "attempt_body prompt params startTime 3 ?w3
      = (Return (fst (generateMockResponse prompt params startTime ?w4)),
         snd (generateMockResponse prompt params startTime ?w4))"
    using attempt_body_blank_last [OF b3 ok3, of prompt params startTime] by simp
  have m: "map (request_for prompt params) (modelsToTry params)
      = [?q 0, ?q (Suc 0), ?q 2, ?q 3]"
    by (simp add: modelsToTry_def)
  show ?thesis
    by (simp add: attempt_indices s0 s1 s2 s3 m)
qed

text \<open>
  Claim C2: with a random source that keeps the contract of \<open>Math.random()\<close>,
  \<open>generateResponse\<close> returns a result with non-empty content for every prompt, parameter
  tuple and provider behaviour, and raises nothing; when the provider answers blank text
  for every model, the four models of the fallback list are asked in order and the result
  is the mock response.
\<close>

theorem generateResponse_always_resolves:
  assumes "random_ok w"
  shows "(\<exists>r w'. generateResponse prompt params w = (Inr r, w') \<and> content r \<noteq> [])
     \<and> (\<not> isMockMode w \<and> blank_provider w \<longrightarrow>
          generateResponse prompt params w
            = generateMockResponse prompt params (clock_src w (clock_pos w))
                (w\<lparr>clock_pos := Suc (clock_pos w), random_pos := Suc (random_pos w),
                   provider_calls := provider_calls w
                     @ map (request_for prompt params) (modelsToTry params)\<rparr>))"
proof
  show "\<exists>r w'. generateResponse prompt params w = (Inr r, w') \<and> content r \<noteq> []"
    using assms by (rule generateResponse_resolves)
next
  show "\<not> isMockMode w \<and> blank_provider w \<longrightarrow>
          generateResponse prompt params w
            = generateMockResponse prompt params (clock_src w (clock_pos w))
                (w\<lparr>clock_pos := Suc (clock_pos w), random_pos := Suc (random_pos w),
                   provider_calls := provider_calls w
                     @ map (request_for prompt params) (modelsToTry params)\<rparr>)"
  proof
    assume a: "\<not> isMockMode w \<and> blank_provider w"
    let ?w2 = "w\<lparr>clock_pos := Suc (clock_pos w), random_pos := Suc (random_pos w)\<rparr>"
    have b: "blank_provider ?w2" using a by (simp add: blank_provider_def)
    have ok: "random_ok ?w2" using assms by (simp add: random_ok_def)
    from attempts_blank [OF b ok, of prompt params "clock_src w (clock_pos w)"] a
    show "generateResponse prompt params w
            = generateMockResponse prompt params (clock_src w (clock_pos w))
                (w\<lparr>clock_pos := Suc (clock_pos w), random_pos := Suc (random_pos w),
                   provider_calls := provider_calls w
                     @ map (request_for prompt params) (modelsToTry params)\<rparr>)"
      by (simp add: generateResponse_def Date_now_def Math_random_def Let_def)
  qed
qed

theorem generateResponse_always_resolves_witness:
  "random_ok example_world \<and> \<not> isMockMode example_world \<and> blank_provider example_world
   \<and> (\<exists>r w'. generateResponse ''hi'' example_parameters example_world = (Inr r, w')
          \<and> content r \<noteq> [])
   \<and> generateResponse ''hi'' example_parameters example_world
       = generateMockResponse ''hi'' example_parameters 1000
           (example_world\<lparr>clock_pos := 1, random_pos := 1,
              provider_calls := map (request_for ''hi'' example_parameters)
                 [''gemini-2.5-flash'', ''gemini-1.5-flash'', ''gemini-1.5-pro'',
                  ''gemini-pro'']\<rparr>)"
proof -
  have ok: "random_ok example_world"
    by (simp add: random_ok_def example_world_def)
  have nm: "\<not> isMockMode example_world"
    by (simp add: example_world_def)
  have bl: "blank_provider example_world"
    by (simp add: blank_provider_def example_world_def trim_def)
  note t = generateResponse_always_resolves [OF ok, of "''hi''" example_parameters]
  from t have r: "\<exists>r w'. generateResponse ''hi'' example_parameters example_world = (Inr r, w')
          \<and> content r \<noteq> []"
    by (rule conjunct1)
  from t nm bl have "generateResponse ''hi'' example_parameters example_world
      = generateMockResponse ''hi'' example_parameters
          (clock_src example_world (clock_pos example_world))
          (example_world\<lparr>clock_pos := Suc (clock_pos example_world),
             random_pos := Suc (random_pos example_world),
             provider_calls := provider_calls example_world
               @ map (request_for ''hi'' example_parameters) (modelsToTry example_parameters)\<rparr>)"
    by blast
  then have m: "generateResponse ''hi'' example_parameters example_world
       = generateMockResponse ''hi'' example_parameters 1000
           (example_world\<lparr>clock_pos := 1, random_pos := 1,
              provider_calls := map (request_for ''hi'' example_parameters)
                 [''gemini-2.5-flash'', ''gemini-1.5-flash'', ''gemini-1.5-pro'',
                  ''gemini-pro'']\<rparr>)"
    by (simp add: example_world_def modelsToTry_def example_parameters_def)
  show ?thesis using ok nm bl r m by blast
qed

text \<open>
  Claim C3 (a provider error that is not transient makes \<open>generateResponse\<close> fall through
  to the mock generator instead of going on with the fallback list). The \<open>catch\<close> block
  returns the mock response only on the last attempt; after an error that is not retryable
  on an earlier attempt it falls out of the block and the loop goes on. Here the first model
  fails with status 400 and the answer of the second model is returned, with no delay
  waited.
\<close>

theorem non_retryable_error_tries_next_model:
  "generateResponse ''hi'' example_parameters
     (example_world\<lparr>provider := (\<lambda>n req. if req_model req = ''gemini-2.5-flash''
                                      then Failure (Some 400) else Text ''Hello'')\<rparr>)
   = (Inr \<lparr>content = ''Hello'', tokensUsed = 1, generationTime = 1\<rparr>,
      example_world\<lparr>provider := (\<lambda>n req. if req_model req = ''gemini-2.5-flash''
                                      then Failure (Some 400) else Text ''Hello''),
        random_pos := 1, clock_pos := 2,
        provider_calls := 
          [\<lparr>req_model = ''gemini-2.5-flash'', req_temperature = 0.5, req_topP = 0.9, req_prompt = enhancePrompt ''hi''\<rparr>,
           \<lparr>req_model = ''gemini-1.5-flash'', req_temperature = 0.5, req_topP = 0.9, req_prompt = enhancePrompt ''hi''\<rparr>]\<rparr>)"
  by (simp add: generateResponse_def attempt_indices example_world_def example_parameters_def Date_now_def
      Math_random_def attempt_body_def catch_block_def generateContent_def
      isRetryable_def trim_def is_space_def Let_def modelsToTry_def)

text \<open>Looking for a lower-case keyword in the prompt finds it in the lower-cased prompt.\<close>

lemma str_includes_map: "str_includes s t \<Longrightarrow> str_includes (map f s) (map f t)"
proof (induction s)
  case Nil
  then show ?case by simp
next
  case (Cons c cs)
  from Cons.prems have "take (length t) (c # cs) = t \<or> str_includes cs t" by simp
  then show ?case
  proof
    assume "take (length t) (c # cs) = t"
    then have "map f (take (length t) (c # cs)) = map f t" by simp
    then have "take (length (map f t)) (map f (c # cs)) = map f t"
      by (simp only: take_map length_map)
    then show ?thesis by simp
  next
    assume "str_includes cs t"
    then have "str_includes (map f cs) (map f t)" by (rule Cons.IH)
    then show ?thesis by simp
  qed
qed

lemma includes_lower_story: "str_includes p ''story'' \<Longrightarrow> str_includes (toLowerCase p) ''story''"
  using str_includes_map [of p "''story''" lower_char]
  by (simp add: toLowerCase_def lower_char_def)

lemma includes_lower_explain: "str_includes p ''explain'' \<Longrightarrow> str_includes (toLowerCase p) ''explain''"
  using str_includes_map [of p "''explain''" lower_char]
  by (simp add: toLowerCase_def lower_char_def)

text \<open>
  Claim C9: the mock generator tests the creative-writing keywords first, then the
  explanatory keywords, the question markers and the code keywords, and falls back to the
  general answer; a prompt that contains both "story" and "explain" matches the
  explanatory keywords too and is answered by the creative-writing generator.
\<close>

theorem mock_priority:
  "(creative_keywords prompt \<longrightarrow>
      generateRealisticMockResponse prompt params w
        = generateCreativeWritingResponse prompt params w)
   \<and> (\<not> creative_keywords prompt \<and> explanatory_keywords prompt \<longrightarrow>
      generateRealisticMockResponse prompt params w
        = generateExplanationResponse prompt params w)
   \<and> (\<not> creative_keywords prompt \<and> \<not> explanatory_keywords prompt \<and> question_markers prompt \<longrightarrow>
      generateRealisticMockResponse prompt params w = generateQAResponse prompt params w)
   \<and> (\<not> creative_keywords prompt \<and> \<not> explanatory_keywords prompt \<and> \<not> question_markers prompt
        \<and> code_keywords prompt \<longrightarrow>
      generateRealisticMockResponse prompt params w = generateCodeResponse prompt params w)
   \<and> (\<not> creative_keywords prompt \<and> \<not> explanatory_keywords prompt \<and> \<not> question_markers prompt
        \<and> \<not> code_keywords prompt \<longrightarrow>
      generateRealisticMockResponse prompt params w = generateGeneralResponse prompt params w)
   \<and> (str_includes prompt ''story'' \<and> str_includes prompt ''explain'' \<longrightarrow>
        explanatory_keywords prompt \<and>
        generateRealisticMockResponse prompt params w
          = generateCreativeWritingResponse prompt params w)"
proof -
  have chain: "generateRealisticMockResponse prompt params w =
     (if creative_keywords prompt then generateCreativeWritingResponse prompt params w
      else if explanatory_keywords prompt then generateExplanationResponse prompt params w
      else if question_markers prompt then generateQAResponse prompt params w
      else if code_keywords prompt then generateCodeResponse prompt params w
      else generateGeneralResponse prompt params w)"
    by (simp add: generateRealisticMockResponse_def creative_keywords_def
        explanatory_keywords_def question_markers_def code_keywords_def Let_def)
  have story: "str_includes prompt ''story'' \<Longrightarrow> creative_keywords prompt"
    by (simp add: creative_keywords_def includes_lower_story)
  have explain: "str_includes prompt ''explain'' \<Longrightarrow> explanatory_keywords prompt"
    by (simp add: explanatory_keywords_def includes_lower_explain)
  show ?thesis
    using story explain by (simp add: chain)
qed

theorem mock_priority_witness:
  "str_includes ''Tell a story, then explain it'' ''story''
   \<and> str_includes ''Tell a story, then explain it'' ''explain''
   \<and> creative_keywords ''Tell a story, then explain it''
   \<and> explanatory_keywords ''Tell a story, then explain it''
   \<and> generateRealisticMockResponse ''Tell a story, then explain it'' example_parameters example_world
       = generateCreativeWritingResponse ''Tell a story, then explain it'' example_parameters example_world
   \<and> \<not> creative_keywords ''Explain how it works'' \<and> explanatory_keywords ''Explain how it works''
   \<and> generateRealisticMockResponse ''Explain how it works'' example_parameters example_world
       = generateExplanationResponse ''Explain how it works'' example_parameters example_world
   \<and> \<not> creative_keywords ''Why?'' \<and> \<not> explanatory_keywords ''Why?'' \<and> question_markers ''Why?''
   \<and> generateRealisticMockResponse ''Why?'' example_parameters example_world
       = generateQAResponse ''Why?'' example_parameters example_world
   \<and> \<not> creative_keywords ''Code'' \<and> \<not> explanatory_keywords ''Code'' \<and> \<not> question_markers ''Code''
   \<and> code_keywords ''Code''
   \<and> generateRealisticMockResponse ''Code'' example_parameters example_world
       = generateCodeResponse ''Code'' example_parameters example_world
   \<and> \<not> creative_keywords ''Hi'' \<and> \<not> explanatory_keywords ''Hi'' \<and> \<not> question_markers ''Hi''
   \<and> \<not> code_keywords ''Hi''
   \<and> generateRealisticMockResponse ''Hi'' example_parameters example_world
       = generateGeneralResponse ''Hi'' example_parameters example_world"
proof -
  have a: "str_includes ''Tell a story, then explain it'' ''story''" by simp
  have b: "str_includes ''Tell a story, then explain it'' ''explain''" by simp
  have c: "creative_keywords ''Tell a story, then explain it''"
    by (simp add: creative_keywords_def toLowerCase_def lower_char_def)
  have d: "\<not> creative_keywords ''Explain how it works'' \<and> explanatory_keywords ''Explain how it works''"
    by (simp add: creative_keywords_def explanatory_keywords_def toLowerCase_def lower_char_def)
  have e: "\<not> creative_keywords ''Why?'' \<and> \<not> explanatory_keywords ''Why?'' \<and> question_markers ''Why?''"
    by (simp add: creative_keywords_def explanatory_keywords_def question_markers_def
        toLowerCase_def lower_char_def)
  have f: "\<not> creative_keywords ''Code'' \<and> \<not> explanatory_keywords ''Code'' \<and> \<not> question_markers ''Code''
     \<and> code_keywords ''Code''"
    by (simp add: creative_keywords_def explanatory_keywords_def question_markers_def
        code_keywords_def toLowerCase_def lower_char_def)
  have g: "\<not> creative_keywords ''Hi'' \<and> \<not> explanatory_keywords ''Hi'' \<and> \<not> question_markers ''Hi''
     \<and> \<not> code_keywords ''Hi''"
    by (simp add: creative_keywords_def explanatory_keywords_def question_markers_def
        code_keywords_def toLowerCase_def lower_char_def)
  show ?thesis
    using a b c d e f g
      mock_priority [of "''Tell a story, then explain it''" example_parameters example_world]
      mock_priority [of "''Explain how it works''" example_parameters example_world]
      mock_priority [of "''Why?''" example_parameters example_world]
      mock_priority [of "''Code''" example_parameters example_world]
      mock_priority [of "''Hi''" example_parameters example_world]
    by simp
qed

section \<open>Properties of the parameter sampler\<close>

lemma sample_combination_world:
  "snd (sample_combination prange w) = w\<lparr>random_pos := random_pos w + 3\<rparr>"
  by (simp add: sample_combination_def randomInRange_def Math_random_def split_def Let_def)

lemma combinations_loop_length: "length (fst (combinations_loop n prange w)) = n"
  by (induction n arbitrary: w) (simp_all add: split_def Let_def)

lemma combinations_loop_nth:
  "i < n \<Longrightarrow> fst (combinations_loop n prange w) ! i
     = fst (sample_combination prange (w\<lparr>random_pos := random_pos w + 3 * i\<rparr>))"
proof (induction n arbitrary: w i)
  case 0
  then show ?case by simp
next
  case (Suc n)
  show ?case
  proof (cases i)
    case 0
    then show ?thesis by (simp add: split_def Let_def)
  next
    case (Suc j)
    with Suc.prems have "j < n" by simp
    from Suc.IH [OF this, of "snd (sample_combination prange w)"] Suc
    show ?thesis by (simp add: split_def Let_def sample_combination_world add.assoc)
  qed
qed

text \<open>
  Claim C8: for a run count from 1 to 20 the sampler returns exactly that many tuples, the
  \<open>i\<close>-th one made from the draws \<open>3i\<close>, \<open>3i + 1\<close> and \<open>3i + 2\<close> of the random
  source; every temperature and nucleus probability is a multiple of 0.01, every output
  length bound is an integer, and with a random source in \<open>[0, 1)\<close> every temperature
  sampled from the range from 0.1 to 0.9 lies between 0.1 and 0.9.
\<close>

theorem generateParameterCombinations_sampled:
  assumes "1 \<le> count" "count \<le> 20"
  shows "int (length (fst (generateParameterCombinations prange count w))) = count
    \<and> (\<forall>i < nat count.
         fst (generateParameterCombinations prange count w) ! i
           = fst (sample_combination prange (w\<lparr>random_pos := random_pos w + 3 * i\<rparr>))
         \<and> (\<exists>k::int. temperature (fst (generateParameterCombinations prange count w) ! i) = of_int k / 100)
         \<and> (\<exists>k::int. top_p (fst (generateParameterCombinations prange count w) ! i) = of_int k / 100)
         \<and> (\<exists>k::int. max_tokens (fst (generateParameterCombinations prange count w) ! i) = of_int k)
         \<and> (random_ok w \<and> min_bound (range_temperature prange) = 0.1
              \<and> max_bound (range_temperature prange) = 0.9
            \<longrightarrow> 0.1 \<le> temperature (fst (generateParameterCombinations prange count w) ! i)
              \<and> temperature (fst (generateParameterCombinations prange count w) ! i) \<le> 0.9))"
proof -
  let ?ps = "fst (generateParameterCombinations prange count w)"
  have len: "int (length ?ps) = count"
    using assms by (simp add: generateParameterCombinations_def combinations_loop_length)
  have each: "?ps ! i = fst (sample_combination prange (w\<lparr>random_pos := random_pos w + 3 * i\<rparr>))
      \<and> (\<exists>k::int. temperature (?ps ! i) = of_int k / 100)
      \<and> (\<exists>k::int. top_p (?ps ! i) = of_int k / 100)
      \<and> (\<exists>k::int. max_tokens (?ps ! i) = of_int k)
      \<and> (random_ok w \<and> min_bound (range_temperature prange) = 0.1
              \<and> max_bound (range_temperature prange) = 0.9
            \<longrightarrow> 0.1 \<le> temperature (?ps ! i) \<and> temperature (?ps ! i) \<le> 0.9)"
    if "i < nat count" for i
  proof -
    let ?w = "w\<lparr>random_pos := random_pos w + 3 * i\<rparr>"
    let ?r = "random_src w (random_pos w + 3 * i)"
    have nth: "?ps ! i = fst (sample_combination prange ?w)"
      using that by (simp add: generateParameterCombinations_def combinations_loop_nth)
    have temp: "temperature (fst (sample_combination prange ?w))
        = round2 (?r * (max_bound (range_temperature prange) - min_bound (range_temperature prange))
                  + min_bound (range_temperature prange))"
      by (simp add: sample_combination_def randomInRange_def Math_random_def split_def Let_def)
    have t2: "\<exists>k::int. temperature (fst (sample_combination prange ?w)) = of_int k / 100"
      unfolding temp by (rule round2_hundredth)
    have topp: "top_p (fst (sample_combination prange ?w))
        = round2 (random_src w (Suc (random_pos w + 3 * i))
                  * (max_bound (range_top_p prange) - min_bound (range_top_p prange))
                  + min_bound (range_top_p prange))"
      by (simp add: sample_combination_def randomInRange_def Math_random_def split_def Let_def)
    have p2: "\<exists>k::int. top_p (fst (sample_combination prange ?w)) = of_int k / 100"
      unfolding topp by (rule round2_hundredth)
    have m2: "\<exists>k::int. max_tokens (fst (sample_combination prange ?w)) = of_int k"
      by (simp add: sample_combination_def randomInRange_def Math_random_def split_def Let_def)
    have bounds: "0.1 \<le> temperature (fst (sample_combination prange ?w))
        \<and> temperature (fst (sample_combination prange ?w)) \<le> 0.9"
      if ok: "random_ok w" and lo: "min_bound (range_temperature prange) = 0.1"
        and hi: "max_bound (range_temperature prange) = 0.9"
    proof -
      from ok have r: "0 \<le> ?r" "?r < 1" by (simp_all add: random_ok_def)
      have "of_int 10 / 100 \<le> ?r * (0.9 - 0.1) + (0.1::real)" using r by simp
      moreover have "?r * (0.9 - 0.1) + (0.1::real) \<le> of_int 90 / 100" using r by simp
      ultimately have "of_int 10 / 100 \<le> round2 (?r * (0.9 - 0.1) + 0.1)
          \<and> round2 (?r * (0.9 - 0.1) + 0.1) \<le> of_int 90 / 100"
        by (rule round2_between)
      then show ?thesis by (simp add: temp lo hi)
    qed
    show ?thesis using nth t2 p2 m2 bounds by simp
  qed
  show ?thesis using len each by blast
qed

theorem generateParameterCombinations_sampled_witness:
  "(1::int) \<le> 2 \<and> (2::int) \<le> 20 \<and> random_ok example_world
   \<and> min_bound (range_temperature example_range) = 0.1
   \<and> max_bound (range_temperature example_range) = 0.9
   \<and> int (length (fst (generateParameterCombinations example_range 2 example_world))) = 2
   \<and> (1::nat) < nat 2
   \<and> 0.1 \<le> temperature (fst (generateParameterCombinations example_range 2 example_world) ! 1)
   \<and> temperature (fst (generateParameterCombinations example_range 2 example_world) ! 1) \<le> 0.9"
proof -
  have h1: "(1::int) \<le> 2" and h2: "(2::int) \<le> 20" and i: "(1::nat) < nat 2"
    by simp_all
  have ok: "random_ok example_world"
    by (simp add: random_ok_def example_world_def)
  have lo: "min_bound (range_temperature example_range) = 0.1"
    and hi: "max_bound (range_temperature example_range) = 0.9"
    by (simp_all add: example_range_def)
  note s = generateParameterCombinations_sampled [OF h1 h2, of example_range example_world]
  from s have len:
    "int (length (fst (generateParameterCombinations example_range 2 example_world))) = 2"
    by (rule conjunct1)
  from s i ok lo hi have t:
    "0.1 \<le> temperature (fst (generateParameterCombinations example_range 2 example_world) ! 1)
     \<and> temperature (fst (generateParameterCombinations example_range 2 example_world) ! 1) \<le> 0.9"
    by blast
  show ?thesis using h1 h2 i ok lo hi len t by blast
qed

section \<open>Properties of the generation route\<close>

text \<open>
  A run count of zero or above 20 is rejected before anything else happens: only the draw
  for the experiment id is consumed.
\<close>

lemma post_generation_rejects:
  assumes "body_numberOfRuns body = Some n" "n = 0 \<or> 20 < n"
  shows "\<exists>msg. post_generation body w = (Status400 msg, w\<lparr>random_pos := Suc (random_pos w)\<rparr>)"
  using assms
  by (auto simp: post_generation_def Math_random_def split: option.splits)

text \<open>
  Claim C7 (every run count outside 1..20, negative ones included, is rejected before an
  experiment is created). The handler tests \<open>!numberOfRuns\<close> and \<open>numberOfRuns > 20\<close>
  only. A run count of \<open>-1\<close> passes both tests: the sampler runs and returns no tuple,
  an experiment row is written, and the answer is a success with no responses and an
  average of \<open>NaN\<close>.
\<close>

theorem negative_run_count_accepted:
  "post_generation \<lparr>body_prompt = Some ''hi'', body_parameterRange = Some prange,
       body_numberOfRuns = Some (- 1)\<rparr> w
   = (Status200 \<lparr>gr_experimentId = length (experiment_rows w), gr_responses = [],
        gr_totalRuns = 0,
        gr_averageMetrics = \<lparr>coherence = NaN, completeness = NaN, readability = NaN,
           relevance = NaN, overallScore = NaN\<rparr>\<rparr>,
      w\<lparr>random_pos := Suc (Suc (random_pos w)),
        experiment_rows := experiment_rows w @
          [\<lparr>exp_prompt = ''hi'', exp_range = prange, totalRuns = 0\<rparr>]\<rparr>)"
  by (simp add: post_generation_def Math_random_def generateParameterCombinations_def
      generateMultipleResponses_def averageMetrics_def calculateOverallScore_def)





end
